theory Spec2Isabelle
  imports Complex_Main "HOL-Library.Char_ord" "HOL-Library.List_Lexorder" "HOL-Library.Sublist"
    "HOL-Library.Word"
begin

section \<open>Numbers\<close>

text \<open>
  A finite float64 is a sign, a significand of 53 bits and a power of two. The exponent
  is left unbounded: every finite float64 is such a value, and nothing below relies on
  the largest exponent. NaN and the infinities are not modelled.
\<close>

datatype f64 = F64 (negative: bool) (significand: "53 word") (exponent: int)

definition pow2 :: "int \<Rightarrow> real" where
  "pow2 e = (if 0 \<le> e then 2 ^ nat e else 1 / 2 ^ nat (- e))"

definition f64_value :: "f64 \<Rightarrow> real" where
  "f64_value x =
     (if negative x then - 1 else 1) * real (unat (significand x)) * pow2 (exponent x)"

text \<open>
  The conversion of an integer to float64, as the comparison of a float64 column with a
  Python int and of an int64 column with a float performs it: the nearest float64, a tie
  going to the even significand. Between \<open>2 ^ (52 + sh)\<close> and \<open>2 ^ (53 + sh)\<close> the floats are
  the multiples of \<open>2 ^ sh\<close>. An integer beyond the float64 range is outside the model.
\<close>

definition round_half_even :: "nat \<Rightarrow> nat \<Rightarrow> nat" where
  "round_half_even sh a =
     (let q = a div 2 ^ sh; r = a mod 2 ^ sh
      in if 2 * r > 2 ^ sh \<or> (2 * r = 2 ^ sh \<and> odd q) then (q + 1) * 2 ^ sh else q * 2 ^ sh)"

function nearest_f64 :: "nat \<Rightarrow> nat \<Rightarrow> nat" where
  "nearest_f64 sh a =
     (if a < 2 ^ (53 + sh) then round_half_even sh a else nearest_f64 (Suc sh) a)"
  by pat_completeness auto
termination
proof (relation "measure (\<lambda>(sh, a). Suc a - 2 ^ (53 + sh))")
  show "wf (measure (\<lambda>(sh, a). Suc a - 2 ^ (53 + sh)))" by simp
next
  fix sh a :: nat
  assume "\<not> a < 2 ^ (53 + sh)"
  then have "(2::nat) ^ (53 + sh) \<le> a" by simp
  moreover have "(2::nat) ^ (53 + Suc sh) = 2 * 2 ^ (53 + sh)" by (simp add: power_add)
  moreover have "(0::nat) < 2 ^ (53 + sh)" by simp
  ultimately have "Suc a - 2 ^ (53 + Suc sh) < Suc a - 2 ^ (53 + sh)" by linarith
  then show "((Suc sh, a), (sh, a)) \<in> measure (\<lambda>(sh, a). Suc a - 2 ^ (53 + sh))" by simp
qed

declare nearest_f64.simps [simp del]

definition round_f64 :: "int \<Rightarrow> real" where
  "round_f64 n =
     (if n < 0 then - real (nearest_f64 0 (nat (- n))) else real (nearest_f64 0 (nat n)))"

text \<open>
  A cell of the payload column holds an int64 or a float64, according to the dtype that
  \<^verbatim>\<open>pd.read_csv\<close> gave the column; a column has one dtype, so a frame holds cells of
  one kind. An entry of the slider's range is a Python int or a float.
\<close>

datatype cell = Int64 "64 word" | Float64 f64

datatype py_num = PyInt int | PyFloat f64

fun cell_value :: "cell \<Rightarrow> real" where
  "cell_value (Int64 w) = real_of_int (sint w)"
| "cell_value (Float64 x) = f64_value x"


text \<open>
  \<^verbatim>\<open>column >= bound\<close> and \<^verbatim>\<open>column <= bound\<close>, cell by cell: integers are compared as
  integers and floats as floats; where one side is an integer and the other a float, the
  integer is converted to float64 first. A Python int outside the int64 range against
  an int64 column is outside the model.
\<close>

fun cell_ge :: "cell \<Rightarrow> py_num \<Rightarrow> bool" where
  "cell_ge (Int64 w) (PyInt n) = (sint w \<ge> n)"
| "cell_ge (Int64 w) (PyFloat x) = (round_f64 (sint w) \<ge> f64_value x)"
| "cell_ge (Float64 y) (PyInt n) = (f64_value y \<ge> round_f64 n)"
| "cell_ge (Float64 y) (PyFloat x) = (f64_value y \<ge> f64_value x)"

fun cell_le :: "cell \<Rightarrow> py_num \<Rightarrow> bool" where
  "cell_le (Int64 w) (PyInt n) = (sint w \<le> n)"
| "cell_le (Int64 w) (PyFloat x) = (round_f64 (sint w) \<le> f64_value x)"
| "cell_le (Float64 y) (PyInt n) = (f64_value y \<le> round_f64 n)"
| "cell_le (Float64 y) (PyFloat x) = (f64_value y \<le> f64_value x)"


section \<open>The launch table\<close>

text \<open>
  One row of \<^verbatim>\<open>spacex_launch_dash.csv\<close> as \<^verbatim>\<open>pd.read_csv\<close> delivers it. The columns the
  program reads are \<^verbatim>\<open>Flight Number\<close>, \<^verbatim>\<open>Launch Site\<close>, \<^verbatim>\<open>Payload Mass (kg)\<close>,
  \<^verbatim>\<open>Booster Version Category\<close> and \<^verbatim>\<open>class\<close>. The field \<open>payload_cell\<close> is the cell of the
  column \<^verbatim>\<open>Payload Mass (kg)\<close>, a finite number, and \<open>payload_mass\<close> below is the number it
  holds. The \<^verbatim>\<open>class\<close> column holds integers, so that \<^verbatim>\<open>astype(int)\<close> of line 17 keeps
  every value. The field \<open>class_col\<close> is the column \<^verbatim>\<open>class\<close>.
\<close>

record csv_row =
  flight_number :: int
  launch_site :: string
  payload_cell :: cell
  booster_version_category :: string
  class_col :: int

text \<open>
  After pre-processing (lines 17 to 21) every row carries the label column \<^verbatim>\<open>Outcome\<close>:
  \<^verbatim>\<open>spacex_df['class'].map({1: 'Success', 0: 'Failure'})\<close> gives NaN, here \<open>None\<close>, for a
  class that is neither 1 nor 0. \<^verbatim>\<open>pd.Categorical\<close> with both labels as categories keeps
  every label and every NaN.
\<close>

record launch_record = csv_row +
  Outcome :: "string option"

type_synonym data_frame = "launch_record list"

definition payload_mass :: "'a csv_row_scheme \<Rightarrow> real" where
  "payload_mass r = cell_value (payload_cell r)"

definition outcome_map :: "int \<Rightarrow> string option" where
  "outcome_map c = (if c = 1 then Some ''Success'' else if c = 0 then Some ''Failure'' else None)"

definition preprocess_row :: "csv_row \<Rightarrow> launch_record" where
  "preprocess_row r =
     \<lparr> flight_number = flight_number r, launch_site = launch_site r,
       payload_cell = payload_cell r,
       booster_version_category = booster_version_category r,
       class_col = class_col r, Outcome = outcome_map (class_col r) \<rparr>"

definition preprocess :: "csv_row list \<Rightarrow> data_frame" where
  "preprocess rows = map preprocess_row rows"

section \<open>Errors and the start of the program\<close>

datatype error =
    FileNotFoundError string
  | ValueError
  | ReadError string

text \<open>Python's \<^verbatim>\<open>int()\<close> of a finite float truncates towards zero.\<close>

definition py_int :: "real \<Rightarrow> int" where
  "py_int x = (if 0 \<le> x then \<lfloor>x\<rfloor> else \<lceil>x\<rceil>)"

text \<open>
  \<^verbatim>\<open>Series.min()\<close> and \<^verbatim>\<open>Series.max()\<close>: NaN, here \<open>None\<close>, on an empty column, on which
  \<^verbatim>\<open>int()\<close> raises ValueError.
\<close>

fun series_min :: "real list \<Rightarrow> real option" where
  "series_min [] = None"
| "series_min (x # xs) = Some (fold min xs x)"

fun series_max :: "real list \<Rightarrow> real option" where
  "series_max [] = None"
| "series_max (x # xs) = Some (fold max xs x)"

definition int_of_stat :: "real option \<Rightarrow> error + int" where
  "int_of_stat v = (case v of None \<Rightarrow> Inl ValueError | Some x \<Rightarrow> Inr (py_int x))"

text \<open>
  What the program reads from its surroundings: whether a path exists
  (\<^verbatim>\<open>os.path.exists\<close>) and what \<^verbatim>\<open>pd.read_csv\<close> returns for a path.
\<close>

record environment =
  path_exists :: "string \<Rightarrow> bool"
  read_csv :: "string \<Rightarrow> error + csv_row list"

text \<open>
  The module-level state once the script has run to line 40: the table, the two slider
  bounds and the dropdown options. The quartile marks of lines 29 to 31 are kept apart,
  in \<open>quartile_marks\<close> below.
\<close>

record app_state =
  spacex_df :: data_frame
  min_payload :: int
  max_payload :: int
  site_options :: "string list"

definition not_found_message :: "string \<Rightarrow> string" where
  "not_found_message data_path =
     ''Could not find data file at '' @ data_path @
     ''. Make sure 'spacex_launch_dash.csv' is in the project folder.''"

definition payload_column :: "data_frame \<Rightarrow> real list" where
  "payload_column df = map payload_mass df"

definition build_site_options :: "data_frame \<Rightarrow> string list" where
  "build_site_options df = ''ALL'' # sort (remdups (map launch_site df))"

definition compute_state :: "data_frame \<Rightarrow> error + app_state" where
  "compute_state df =
     (case int_of_stat (series_min (payload_column df)) of Inl e \<Rightarrow> Inl e | Inr mn \<Rightarrow>
      case int_of_stat (series_max (payload_column df)) of Inl e \<Rightarrow> Inl e | Inr mx \<Rightarrow>
        Inr \<lparr> spacex_df = df, min_payload = mn, max_payload = mx,
              site_options = build_site_options df \<rparr>)"

text \<open>
  Lines 29 to 31: \<^verbatim>\<open>int()\<close> of the three quartiles, which only label marks on the slider.
  \<^verbatim>\<open>Series.quantile\<close> interpolates in float64 inside the library and is taken as it is, as
  the parameter \<open>series_quantile\<close>. These lines run once lines 27 and 28 have succeeded,
  on a column that is not empty, where the quantile is a number.
\<close>

definition quartile_marks :: "(real list \<Rightarrow> real \<Rightarrow> real) \<Rightarrow> data_frame \<Rightarrow> int list" where
  "quartile_marks series_quantile df =
     map (\<lambda>q. py_int (series_quantile (payload_column df) q)) [1/4, 1/2, 3/4]"

definition startup :: "environment \<Rightarrow> string \<Rightarrow> error + app_state" where
  "startup env data_path =
     (if \<not> path_exists env data_path then Inl (FileNotFoundError (not_found_message data_path))
      else case read_csv env data_path of
             Inl e \<Rightarrow> Inl e
           | Inr rows \<Rightarrow> compute_state (preprocess rows))"


section \<open>Figures\<close>

text \<open>
  A figure is what the callbacks hand to the charting library: the frame, the columns
  named, the title and the layout settings. The library itself is outside the program.
  Colours, symbols, hover columns, marker size, opacity and the order of the y axis are
  styling arguments that select no rows and are left out.
\<close>

datatype frame =
    Counts_Frame "(string \<times> nat) list"
  | Record_Frame data_frame

datatype chart_kind = Pie | Scatter

record figure =
  kind :: chart_kind
  data :: frame
  names_column :: string
  values_column :: "string option"
  title :: string
  title_x :: "real option"

definition px_pie :: "frame \<Rightarrow> string \<Rightarrow> string option \<Rightarrow> string \<Rightarrow> figure" where
  "px_pie fr names vals t =
     \<lparr> kind = Pie, data = fr, names_column = names, values_column = vals,
       title = t, title_x = None \<rparr>"

definition px_scatter :: "frame \<Rightarrow> string \<Rightarrow> figure" where
  "px_scatter fr t =
     \<lparr> kind = Scatter, data = fr, names_column = ''Outcome'', values_column = None,
       title = t, title_x = None \<rparr>"

definition update_layout :: "figure \<Rightarrow> figure" where
  "update_layout fig = fig \<lparr> title_x := Some (1/2) \<rparr>"

text \<open>
  The size of the sector a pie draws for a label: the library adds the values of the
  rows with that label, and counts the rows when no values column is given.
\<close>

definition sector_size :: "figure \<Rightarrow> string \<Rightarrow> nat" where
  "sector_size fig label =
     (case data fig of
        Counts_Frame rows \<Rightarrow> sum_list (map snd (filter (\<lambda>row. fst row = label) rows))
      | Record_Frame rows \<Rightarrow> length (filter (\<lambda>r. Outcome r = Some label) rows))"

section \<open>The callbacks\<close>

text \<open>
  \<^verbatim>\<open>groupby('Launch Site').size().reset_index(name='counts')\<close>: one row for each site
  of the frame, in sorted order, with the number of its rows.
\<close>

definition groupby_size :: "data_frame \<Rightarrow> (string \<times> nat) list" where
  "groupby_size df =
     map (\<lambda>s. (s, length (filter (\<lambda>r. launch_site r = s) df)))
         (sort (remdups (map launch_site df)))"

definition success_counts :: "data_frame \<Rightarrow> (string \<times> nat) list" where
  "success_counts df = groupby_size (filter (\<lambda>r. class_col r = 1) df)"

definition specific :: "data_frame \<Rightarrow> string \<Rightarrow> data_frame" where
  "specific df site_dropdown = filter (\<lambda>r. launch_site r = site_dropdown) df"

definition build_pie :: "data_frame \<Rightarrow> string \<Rightarrow> figure" where
  "build_pie df site_dropdown =
     (if site_dropdown = ''ALL'' then
        update_layout (px_pie (Counts_Frame (success_counts df)) ''Launch Site''
                         (Some ''counts'') ''Total Successful Launches by Site'')
      else
        update_layout (px_pie (Record_Frame (specific df site_dropdown)) ''Outcome''
                         None (''Success vs Failure for '' @ site_dropdown)))"

text \<open>
  Lines 120 and 121: the rows for which both comparisons of the mask hold.
\<close>

definition payload_filter :: "data_frame \<Rightarrow> py_num \<Rightarrow> py_num \<Rightarrow> data_frame" where
  "payload_filter df low high =
     filter (\<lambda>r. cell_ge (payload_cell r) low \<and> cell_le (payload_cell r) high) df"

text \<open>Lines 124 and 125: the site restriction, skipped for \<^verbatim>\<open>'ALL'\<close>.\<close>

definition site_filter :: "data_frame \<Rightarrow> string \<Rightarrow> data_frame" where
  "site_filter df_filtered site_dropdown =
     (if site_dropdown \<noteq> ''ALL''
      then filter (\<lambda>r. launch_site r = site_dropdown) df_filtered
      else df_filtered)"

text \<open>
  \<^verbatim>\<open>low, high = payload_range\<close> raises ValueError unless the range has exactly two
  entries.
\<close>

definition df_filtered :: "data_frame \<Rightarrow> string \<Rightarrow> py_num list \<Rightarrow> error + data_frame" where
  "df_filtered df site_dropdown payload_range =
     (case payload_range of
        [low, high] \<Rightarrow> Inr (site_filter (payload_filter df low high) site_dropdown)
      | _ \<Rightarrow> Inl ValueError)"

definition update_scatter :: "data_frame \<Rightarrow> string \<Rightarrow> py_num list \<Rightarrow> error + figure" where
  "update_scatter df site_dropdown payload_range =
     (case df_filtered df site_dropdown payload_range of
        Inl e \<Rightarrow> Inl e
      | Inr rows \<Rightarrow>
          Inr (update_layout (px_scatter (Record_Frame rows) ''Payload vs. Launch Outcome'')))"

section \<open>Serving requests\<close>

text \<open>
  The two inputs of the page. The pie callback is registered on the dropdown only, the
  scatter callback on the dropdown and the slider. A callback reads the module-level
  table; the state is threaded through to show what a call leaves behind.
\<close>

record inputs =
  site_dropdown :: string
  payload_slider :: "py_num list"

definition pie_callback :: "app_state \<Rightarrow> inputs \<Rightarrow> figure \<times> app_state" where
  "pie_callback st i = (build_pie (spacex_df st) (site_dropdown i), st)"

definition scatter_callback :: "app_state \<Rightarrow> inputs \<Rightarrow> (error + figure) \<times> app_state" where
  "scatter_callback st i =
     (update_scatter (spacex_df st) (site_dropdown i) (payload_slider i), st)"

fun serve :: "app_state \<Rightarrow> inputs list \<Rightarrow> (figure \<times> (error + figure)) list \<times> app_state" where
  "serve st [] = ([], st)"
| "serve st (i # rest) =
     (let (pie, st1) = pie_callback st i;
          (scatter, st2) = scatter_callback st1 i;
          (figs, st3) = serve st2 rest
      in ((pie, scatter) # figs, st3))"

section \<open>Sample data\<close>

definition row :: "int \<Rightarrow> string \<Rightarrow> cell \<Rightarrow> int \<Rightarrow> csv_row" where
  "row n s p c =
     \<lparr> flight_number = n, launch_site = s, payload_cell = p,
       booster_version_category = ''FT'', class_col = c \<rparr>"

text \<open>A float64 column holding 0.0, 2500.5, 9600.0 and 3000.0.\<close>

definition sample_rows :: "csv_row list" where
  "sample_rows =
     [row 1 ''CCAFS LC-40'' (Float64 (F64 False 0 0)) 0,
      row 2 ''KSC LC-39A'' (Float64 (F64 False 5001 (- 1))) 1,
      row 3 ''CCAFS LC-40'' (Float64 (F64 False 9600 0)) 1,
      row 4 ''KSC LC-39A'' (Float64 (F64 False 3000 0)) 0]"

definition sample_df :: data_frame where
  "sample_df = preprocess sample_rows"

definition sample_state :: app_state where
  "sample_state =
     \<lparr> spacex_df = sample_df, min_payload = 0, max_payload = 9600,
       site_options = [''ALL'', ''CCAFS LC-40'', ''KSC LC-39A''] \<rparr>"

definition sample_env :: environment where
  "sample_env =
     \<lparr> path_exists = (\<lambda>p. p = ''spacex_launch_dash.csv''),
       read_csv = (\<lambda>p. if p = ''spacex_launch_dash.csv'' then Inr sample_rows
                        else Inl (ReadError p)) \<rparr>"




section \<open>Evaluating the sample\<close>

lemma sample_df_eval:
  "sample_df =
     [\<lparr>flight_number = 1, launch_site = ''CCAFS LC-40'', payload_cell = Float64 (F64 False 0 0),
        booster_version_category = ''FT'', class_col = 0, Outcome = Some ''Failure''\<rparr>,
      \<lparr>flight_number = 2, launch_site = ''KSC LC-39A'', payload_cell = Float64 (F64 False 5001 (- 1)),
        booster_version_category = ''FT'', class_col = 1, Outcome = Some ''Success''\<rparr>,
      \<lparr>flight_number = 3, launch_site = ''CCAFS LC-40'', payload_cell = Float64 (F64 False 9600 0),
        booster_version_category = ''FT'', class_col = 1, Outcome = Some ''Success''\<rparr>,
      \<lparr>flight_number = 4, launch_site = ''KSC LC-39A'', payload_cell = Float64 (F64 False 3000 0),
        booster_version_category = ''FT'', class_col = 0, Outcome = Some ''Failure''\<rparr>]"
  by (simp add: sample_df_def sample_rows_def row_def preprocess_def preprocess_row_def
      outcome_map_def)

section \<open>Helper facts\<close>

lemma round_half_even_0: "round_half_even 0 a = a"
  by (simp add: round_half_even_def)

lemma nearest_small: "a \<le> 2 ^ 53 \<Longrightarrow> nearest_f64 0 a = a"
proof (cases "a < 2 ^ 53")
  case True
  then show ?thesis by (subst nearest_f64.simps) (simp add: round_half_even_0)
next
  case False
  assume "a \<le> 2 ^ 53"
  with False have a: "a = 2 ^ 53" by simp
  have "nearest_f64 0 a = nearest_f64 (Suc 0) a"
    using False by (subst nearest_f64.simps) simp
  also have "\<dots> = round_half_even (Suc 0) a"
    by (subst nearest_f64.simps) (simp add: a)
  also have "\<dots> = a" by (simp add: round_half_even_def a)
  finally show ?thesis .
qed

lemma round_f64_exact: "\<bar>n\<bar> \<le> 2 ^ 53 \<Longrightarrow> round_f64 n = real_of_int n"
proof -
  assume b: "\<bar>n\<bar> \<le> 2 ^ 53"
  show ?thesis
  proof (cases "n < 0")
    case True
    with b have "nat (- n) \<le> 2 ^ 53" by (simp add: nat_le_iff)
    then show ?thesis using True by (simp add: round_f64_def nearest_small)
  next
    case False
    with b have "nat n \<le> 2 ^ 53" by (simp add: nat_le_iff)
    then show ?thesis using False by (simp add: round_f64_def nearest_small)
  qed
qed





lemma groupby_size_keys: "map fst (groupby_size df) = sort (remdups (map launch_site df))"
  by (simp add: groupby_size_def comp_def)

lemma groupby_size_distinct: "distinct (map fst (groupby_size df))"
  by (simp add: groupby_size_keys)

lemma groupby_size_mem:
  "(s, n) \<in> set (groupby_size df) \<longleftrightarrow>
     s \<in> launch_site ` set df \<and> n = length (filter (\<lambda>r. launch_site r = s) df)"
  by (auto simp: groupby_size_def)

lemma filter_eq_distinct:
  "distinct xs \<Longrightarrow> filter (\<lambda>k. k = s) xs = (if s \<in> set xs then [s] else [])"
  by (induction xs) auto

lemma count_site:
  "length (filter (\<lambda>r. launch_site r = s) df) = count_list (map launch_site df) s"
  by (induction df) auto

lemma groupby_size_rows_of:
  "filter (\<lambda>row. fst row = s) (groupby_size df) =
     (if s \<in> launch_site ` set df then [(s, length (filter (\<lambda>r. launch_site r = s) df))] else [])"
proof -
  have d: "distinct (sort (remdups (map launch_site df)))" by simp
  have "filter (\<lambda>row. fst row = s) (groupby_size df) =
        map (\<lambda>k. (k, length (filter (\<lambda>r. launch_site r = k) df)))
            (filter (\<lambda>k. k = s) (sort (remdups (map launch_site df))))"
    by (simp add: groupby_size_def filter_map comp_def)
  also have "filter (\<lambda>k. k = s) (sort (remdups (map launch_site df))) =
        (if s \<in> launch_site ` set df then [s] else [])"
    using d by (simp add: filter_eq_distinct)
  finally show ?thesis by simp
qed

lemma groupby_size_sum: "sum_list (map snd (groupby_size df)) = length df"
proof -
  let ?keys = "sort (remdups (map launch_site df))"
  have "sum_list (map snd (groupby_size df)) =
        sum_list (map (\<lambda>s. count_list (map launch_site df) s) ?keys)"
    by (simp add: groupby_size_def comp_def count_site)
  also have "\<dots> = sum (count_list (map launch_site df)) (set ?keys)"
    by (rule sum_list_distinct_conv_sum_set) simp
  also have "\<dots> = length (map launch_site df)"
    by (rule sum_count_set) simp_all
  finally show ?thesis by simp
qed

lemma build_pie_all_data: "data (build_pie df ''ALL'') = Counts_Frame (success_counts df)"
  by (simp add: build_pie_def update_layout_def px_pie_def)

lemma build_pie_site_data:
  "site \<noteq> ''ALL'' \<Longrightarrow> data (build_pie df site) = Record_Frame (specific df site)"
  by (simp add: build_pie_def update_layout_def px_pie_def)

lemma filter_success_site:
  "filter (\<lambda>r. launch_site r = s) (filter (\<lambda>r. class_col r = 1) df) =
   filter (\<lambda>r. class_col r = 1 \<and> launch_site r = s) df"
  by (simp add: conj_commute)


lemma outcome_success: "Outcome (preprocess_row r) = Some ''Success'' \<longleftrightarrow> class_col r = 1"
  by (simp add: preprocess_row_def outcome_map_def)

lemma outcome_failure: "Outcome (preprocess_row r) = Some ''Failure'' \<longleftrightarrow> class_col r = 0"
  by (simp add: preprocess_row_def outcome_map_def)

lemma launch_site_preprocess_row: "launch_site (preprocess_row r) = launch_site r"
  by (simp add: preprocess_row_def)

lemma sector_size_single:
  assumes "site \<noteq> ''ALL''"
  shows "sector_size (build_pie df site) label =
           length (filter (\<lambda>r. launch_site r = site \<and> Outcome r = Some label) df)"
  using assms by (simp add: sector_size_def build_pie_site_data specific_def conj_commute)

lemma series_min_Min: "xs \<noteq> [] \<Longrightarrow> series_min xs = Some (Min (set xs))"
proof (cases xs)
  case (Cons a list)
  then show ?thesis using Min.set_eq_fold [of a list] by simp
qed simp

lemma series_max_Max: "xs \<noteq> [] \<Longrightarrow> series_max xs = Some (Max (set xs))"
proof (cases xs)
  case (Cons a list)
  then show ?thesis using Max.set_eq_fold [of a list] by simp
qed simp

lemma compute_state_empty: "compute_state [] = Inl ValueError"
  by (simp add: compute_state_def payload_column_def int_of_stat_def)

lemma compute_state_nonempty:
  assumes "df \<noteq> []"
  shows "\<exists>st. compute_state df = Inr st \<and> spacex_df st = df \<and>
              min_payload st = py_int (Min (payload_mass ` set df)) \<and>
              max_payload st = py_int (Max (payload_mass ` set df))"
proof -
  from assms have ne: "payload_column df \<noteq> []" by (simp add: payload_column_def)
  have mn: "series_min (payload_column df) = Some (Min (payload_mass ` set df))"
    using series_min_Min [OF ne] by (simp add: payload_column_def)
  have mx: "series_max (payload_column df) = Some (Max (payload_mass ` set df))"
    using series_max_Max [OF ne] by (simp add: payload_column_def)
  show ?thesis
    unfolding compute_state_def mn mx int_of_stat_def by simp
qed

lemma compute_state_Inr:
  assumes "compute_state df = Inr st"
  shows "df \<noteq> []" and "spacex_df st = df"
    and "min_payload st = py_int (Min (payload_mass ` set df))"
    and "max_payload st = py_int (Max (payload_mass ` set df))"
proof -
  show ne: "df \<noteq> []" using assms compute_state_empty by auto
  from compute_state_nonempty [OF ne] assms
  show "spacex_df st = df" "min_payload st = py_int (Min (payload_mass ` set df))"
    "max_payload st = py_int (Max (payload_mass ` set df))" by auto
qed





lemma serve_figures:
  "fst (serve st reqs) =
     map (\<lambda>i. (build_pie (spacex_df st) (site_dropdown i),
               update_scatter (spacex_df st) (site_dropdown i) (payload_slider i))) reqs"
  by (induction reqs) (simp_all add: pie_callback_def scatter_callback_def case_prod_beta)

lemma sector_size_preprocess:
  assumes "site \<noteq> ''ALL''"
  shows "sector_size (build_pie (preprocess rs) site) ''Success'' =
           length (filter (\<lambda>r. launch_site r = site \<and> class_col r = 1) rs)"
    and "sector_size (build_pie (preprocess rs) site) ''Failure'' =
           length (filter (\<lambda>r. launch_site r = site \<and> class_col r = 0) rs)"
  using assms
  by (simp_all add: sector_size_single preprocess_def filter_map comp_def
      outcome_success outcome_failure launch_site_preprocess_row)

section \<open>The filters of the scatter chart\<close>




text \<open>
  C2. For a selected site other than \<^verbatim>\<open>'ALL'\<close> the site filter, in the scatter callback
  and in the pie callback, returns exactly the rows with that site, a subsequence of its
  input; for \<^verbatim>\<open>'ALL'\<close> the frame being filtered is returned unchanged.
\<close>

theorem site_filter_exact:
  "(site \<noteq> ''ALL'' \<longrightarrow>
      site_filter d site = filter (\<lambda>r. launch_site r = site) d \<and>
      specific d site = filter (\<lambda>r. launch_site r = site) d \<and>
      (\<forall>r. r \<in> set (site_filter d site) \<longrightarrow> launch_site r = site) \<and>
      (\<forall>r. r \<in> set (specific d site) \<longrightarrow> launch_site r = site))
   \<and> subseq (site_filter d site) d
   \<and> site_filter d ''ALL'' = d
   \<and> df_filtered df site [low, high] = Inr (site_filter (payload_filter df low high) site)
   \<and> df_filtered df ''ALL'' [low, high] = Inr (payload_filter df low high)
   \<and> (site \<noteq> ''ALL'' \<longrightarrow> data (build_pie df site) = Record_Frame (specific df site))"
  by (simp add: site_filter_def specific_def df_filtered_def build_pie_def update_layout_def
      px_pie_def)

theorem site_filter_exact_witness:
  "site_filter sample_df ''KSC LC-39A'' =
     [\<lparr>flight_number = 2, launch_site = ''KSC LC-39A'', payload_cell = Float64 (F64 False 5001 (- 1)),
        booster_version_category = ''FT'', class_col = 1, Outcome = Some ''Success''\<rparr>,
      \<lparr>flight_number = 4, launch_site = ''KSC LC-39A'', payload_cell = Float64 (F64 False 3000 0),
        booster_version_category = ''FT'', class_col = 0, Outcome = Some ''Failure''\<rparr>]
   \<and> data (build_pie sample_df ''KSC LC-39A'') =
       Record_Frame (site_filter sample_df ''KSC LC-39A'')"
  using site_filter_exact [of "''KSC LC-39A''" sample_df sample_df "PyInt 0" "PyInt 1"]
  by (simp add: sample_df_eval)

section \<open>The aggregation of the pie chart\<close>

text \<open>
  C3. For \<^verbatim>\<open>'ALL'\<close> the pie chart receives \<open>success_counts\<close>: one row for each site
  that has a row with class 1, in sorted order and without repetition, whose count is the
  number of rows of the table with class 1 and that site; the sector drawn for a site has
  that size.
\<close>

theorem success_counts_by_site:
  "data (build_pie df ''ALL'') = Counts_Frame (success_counts df)
   \<and> map fst (success_counts df) =
       sort (remdups (map launch_site (filter (\<lambda>r. class_col r = 1) df)))
   \<and> distinct (map fst (success_counts df))
   \<and> (\<forall>s n. (s, n) \<in> set (success_counts df) \<longleftrightarrow>
          (\<exists>r. r \<in> set df \<and> class_col r = 1 \<and> launch_site r = s) \<and>
          n = length (filter (\<lambda>r. class_col r = 1 \<and> launch_site r = s) df))
   \<and> (\<forall>s. sector_size (build_pie df ''ALL'') s =
          length (filter (\<lambda>r. class_col r = 1 \<and> launch_site r = s) df))"
proof -
  let ?succ = "filter (\<lambda>r. class_col r = 1) df"
  have keys: "map fst (success_counts df) = sort (remdups (map launch_site ?succ))"
    by (simp add: success_counts_def groupby_size_keys)
  have dist: "distinct (map fst (success_counts df))"
    by (simp add: success_counts_def groupby_size_distinct)
  have mem: "(s, n) \<in> set (success_counts df) \<longleftrightarrow>
          (\<exists>r. r \<in> set df \<and> class_col r = 1 \<and> launch_site r = s) \<and>
          n = length (filter (\<lambda>r. class_col r = 1 \<and> launch_site r = s) df)" for s n
    unfolding success_counts_def groupby_size_mem filter_success_site by auto
  have sec: "sector_size (build_pie df ''ALL'') s =
          length (filter (\<lambda>r. class_col r = 1 \<and> launch_site r = s) df)" for s
  proof (cases "s \<in> launch_site ` set ?succ")
    case True
    then show ?thesis
      by (simp add: sector_size_def build_pie_all_data success_counts_def
          groupby_size_rows_of filter_success_site)
  next
    case False
    then have "filter (\<lambda>r. class_col r = 1 \<and> launch_site r = s) df = []"
      by (auto simp: filter_empty_conv)
    with False show ?thesis
      by (simp add: sector_size_def build_pie_all_data success_counts_def
          groupby_size_rows_of)
  qed
  from build_pie_all_data keys dist mem sec show ?thesis by blast
qed

theorem success_counts_by_site_witness:
  "success_counts sample_df = [(''CCAFS LC-40'', 1), (''KSC LC-39A'', 1)]
   \<and> sector_size (build_pie sample_df ''ALL'') ''KSC LC-39A'' = 1"
  using success_counts_by_site [of sample_df]
  by (simp add: sample_df_eval success_counts_def groupby_size_def)

text \<open>
  C5. The counts of \<open>success_counts\<close>, and the sizes of the sectors drawn for its sites,
  add up to the number of rows of the table with class 1.
\<close>

theorem success_counts_total:
  "(\<exists>rows. data (build_pie df ''ALL'') = Counts_Frame rows \<and>
       sum_list (map snd rows) = length (filter (\<lambda>r. class_col r = 1) df))
   \<and> sum_list (map snd (success_counts df)) = length (filter (\<lambda>r. class_col r = 1) df)
   \<and> sum_list (map (sector_size (build_pie df ''ALL'')) (map fst (success_counts df))) =
       length (filter (\<lambda>r. class_col r = 1) df)"
proof -
  have total: "sum_list (map snd (success_counts df)) = length (filter (\<lambda>r. class_col r = 1) df)"
    by (simp add: success_counts_def groupby_size_sum)
  have "sector_size (build_pie df ''ALL'') (fst row) = snd row"
    if "row \<in> set (success_counts df)" for row
  proof -
    obtain s n where row: "row = (s, n)" by (cases row)
    with that have "(s, n) \<in> set (groupby_size (filter (\<lambda>r. class_col r = 1) df))"
      by (simp add: success_counts_def)
    then have "s \<in> launch_site ` set (filter (\<lambda>r. class_col r = 1) df)"
      and "n = length (filter (\<lambda>r. launch_site r = s) (filter (\<lambda>r. class_col r = 1) df))"
      using groupby_size_mem by blast+
    then show ?thesis
      by (simp add: row sector_size_def build_pie_all_data success_counts_def
          groupby_size_rows_of)
  qed
  then have "map (sector_size (build_pie df ''ALL'')) (map fst (success_counts df)) =
        map snd (success_counts df)"
    by simp
  then have "sum_list (map (sector_size (build_pie df ''ALL'')) (map fst (success_counts df))) =
        length (filter (\<lambda>r. class_col r = 1) df)"
    using total by (simp only:)
  with total build_pie_all_data show ?thesis by blast
qed



section \<open>The start of the program\<close>

text \<open>
  C7. When the data file does not exist the start fails with FileNotFoundError, whose
  message names the path, whatever reading the file would have returned; a start that
  succeeds has found the file and holds the pre-processed rows read from it.
\<close>

theorem startup_missing_file:
  "(\<not> path_exists env p \<longrightarrow>
      startup env p = Inl (FileNotFoundError (not_found_message p)) \<and>
      (\<forall>f. startup (env \<lparr>read_csv := f\<rparr>) p = startup env p) \<and>
      not_found_message p = ''Could not find data file at '' @ p @
        ''. Make sure 'spacex_launch_dash.csv' is in the project folder.'')
   \<and> (\<forall>st. startup env p = Inr st \<longrightarrow>
        path_exists env p \<and> (\<exists>rows. read_csv env p = Inr rows \<and> spacex_df st = preprocess rows))
   \<and> (path_exists env p \<longrightarrow>
        startup env p = (case read_csv env p of Inl e \<Rightarrow> Inl e
                         | Inr rows \<Rightarrow> compute_state (preprocess rows)))"
proof (intro conjI impI allI)
  fix st assume ok: "startup env p = Inr st"
  then show ex: "path_exists env p"
    by (auto simp: startup_def split: if_splits)
  with ok obtain rows where r: "read_csv env p = Inr rows"
    and c: "compute_state (preprocess rows) = Inr st"
    by (auto simp: startup_def split: sum.splits)
  from compute_state_Inr(2) [OF c] r
  show "\<exists>rows. read_csv env p = Inr rows \<and> spacex_df st = preprocess rows" by simp
qed (simp_all add: startup_def not_found_message_def)

theorem startup_missing_file_witness:
  "\<not> path_exists sample_env ''missing.csv''
   \<and> startup sample_env ''missing.csv'' =
       Inl (FileNotFoundError (''Could not find data file at missing.csv'' @
              ''. Make sure 'spacex_launch_dash.csv' is in the project folder.''))
   \<and> path_exists sample_env ''spacex_launch_dash.csv''
   \<and> (\<exists>st rows. startup sample_env ''spacex_launch_dash.csv'' = Inr st \<and>
         read_csv sample_env ''spacex_launch_dash.csv'' = Inr rows \<and>
         spacex_df st = preprocess rows)"
proof -
  have "sample_df \<noteq> []" by (simp add: sample_df_eval)
  from compute_state_nonempty [OF this]
  obtain st where "compute_state sample_df = Inr st" by blast
  then have ok: "startup sample_env ''spacex_launch_dash.csv'' = Inr st"
    by (simp add: startup_def sample_env_def sample_df_def)
  have miss: "\<not> path_exists sample_env ''missing.csv''"
    by (simp add: sample_env_def)
  from startup_missing_file [of sample_env "''missing.csv''"] miss
  have "startup sample_env ''missing.csv'' =
          Inl (FileNotFoundError (not_found_message ''missing.csv''))" by blast
  then have msg: "startup sample_env ''missing.csv'' =
       Inl (FileNotFoundError (''Could not find data file at missing.csv'' @
              ''. Make sure 'spacex_launch_dash.csv' is in the project folder.''))"
    by (simp add: not_found_message_def)
  from startup_missing_file [of sample_env "''spacex_launch_dash.csv''"] ok
  have "path_exists sample_env ''spacex_launch_dash.csv'' \<and>
        (\<exists>rows. read_csv sample_env ''spacex_launch_dash.csv'' = Inr rows \<and>
           spacex_df st = preprocess rows)" by blast
  with ok miss msg show ?thesis by blast
qed



section \<open>The pie chart and the slider\<close>

text \<open>
  C9. The pie callback reads the dropdown only: changing the slider leaves its figure as
  it was, two requests with the same site get the same pie, and for a site other than
  \<^verbatim>\<open>'ALL'\<close> the pie is drawn over every row of that site, whatever its payload mass.
\<close>

theorem pie_ignores_payload_range:
  "fst (pie_callback st (i \<lparr>payload_slider := pr\<rparr>)) = fst (pie_callback st i)
   \<and> (site_dropdown i = site_dropdown j \<longrightarrow> fst (pie_callback st i) = fst (pie_callback st j))
   \<and> map fst (fst (serve st (map (\<lambda>pr. \<lparr>site_dropdown = site, payload_slider = pr\<rparr>) prs))) =
       replicate (length prs) (build_pie (spacex_df st) site)
   \<and> (site \<noteq> ''ALL'' \<longrightarrow>
        data (build_pie df site) = Record_Frame (filter (\<lambda>r. launch_site r = site) df) \<and>
        sector_size (build_pie (preprocess rows) site) ''Success'' =
          length (filter (\<lambda>r. launch_site r = site \<and> class_col r = 1) rows) \<and>
        sector_size (build_pie (preprocess rows) site) ''Failure'' =
          length (filter (\<lambda>r. launch_site r = site \<and> class_col r = 0) rows))"
proof -
  have "map fst (fst (serve st (map (\<lambda>pr. \<lparr>site_dropdown = site, payload_slider = pr\<rparr>) prs))) =
       replicate (length prs) (build_pie (spacex_df st) site)"
    by (simp add: serve_figures comp_def map_replicate_const)
  then show ?thesis
    by (simp add: pie_callback_def build_pie_site_data specific_def sector_size_preprocess)
qed

theorem pie_ignores_payload_range_witness:
  "fst (pie_callback sample_state \<lparr>site_dropdown = ''KSC LC-39A'', payload_slider = [PyInt 0, PyInt 1]\<rparr>) =
   fst (pie_callback sample_state \<lparr>site_dropdown = ''KSC LC-39A'', payload_slider = [PyInt 0, PyInt 9600]\<rparr>)
   \<and> ''KSC LC-39A'' \<noteq> ''ALL''
   \<and> sector_size (build_pie sample_df ''KSC LC-39A'') ''Success'' = 1
   \<and> sector_size (build_pie sample_df ''KSC LC-39A'') ''Failure'' = 1
   \<and> df_filtered sample_df ''KSC LC-39A'' [PyInt 0, PyInt 1] = Inr []"
proof -
  note inst = pie_ignores_payload_range
    [where st = sample_state and i = "\<lparr>site_dropdown = ''KSC LC-39A'', payload_slider = [PyInt 0, PyInt 1]\<rparr>"
       and pr = "[PyInt 0, PyInt 9600]"
       and j = "\<lparr>site_dropdown = ''KSC LC-39A'', payload_slider = [PyInt 0, PyInt 9600]\<rparr>"
       and site = "''KSC LC-39A''" and prs = "[]" and df = sample_df and rows = sample_rows]
  have ne: "''KSC LC-39A'' \<noteq> ''ALL''" by simp
  have same: "fst (pie_callback sample_state \<lparr>site_dropdown = ''KSC LC-39A'', payload_slider = [PyInt 0, PyInt 1]\<rparr>) =
     fst (pie_callback sample_state \<lparr>site_dropdown = ''KSC LC-39A'', payload_slider = [PyInt 0, PyInt 9600]\<rparr>)"
    using inst [THEN conjunct1] by simp
  note sizes = inst [THEN conjunct2, THEN conjunct2, THEN conjunct2, THEN mp, OF ne,
      THEN conjunct2]
  note s = sizes [THEN conjunct1] and f = sizes [THEN conjunct2]
  have s1: "sector_size (build_pie sample_df ''KSC LC-39A'') ''Success'' = 1"
    unfolding sample_df_def s by (simp add: sample_rows_def row_def)
  have f1: "sector_size (build_pie sample_df ''KSC LC-39A'') ''Failure'' = 1"
    unfolding sample_df_def f by (simp add: sample_rows_def row_def)
  have e: "df_filtered sample_df ''KSC LC-39A'' [PyInt 0, PyInt 1] = Inr []"
    by (simp add: sample_df_eval df_filtered_def site_filter_def payload_filter_def
        round_f64_exact f64_value_def pow2_def)
  from same ne s1 f1 e show ?thesis by blast
qed

end
